theory Spec2Isabelle
  imports Complex_Main "HOL-Library.AList"
begin

section \<open>Errors and numeric vectors\<close>

text \<open>
  The controller of \<^verbatim>\<open>manipulator.py\<close> is embedded as pure functions over an explicit
  robot state. Every exception of the source is a value of \<open>error\<close>; an operation that
  may raise returns \<open>error + 'a\<close> with \<open>Inl\<close> for the exception. The state that a
  raising operation leaves behind is not tracked.

  Motor positions are modelled as exact reals: rounding of the 32 and 64 bit floats of
  the source is not modelled, so a cast between float widths is the identity.
\<close>

datatype error =
    RobotDeviceAlreadyConnectedError
  | RobotDeviceNotConnectedError
  | ValueError string
  | KeyError string
  | RuntimeError
  | TypeError
  | AttributeError
  | IndexError
  | DeviceError string

text \<open>
  \<open>max_relative_target: float | list[float]\<close>; \<open>torch.tensor\<close> turns the first into a
  0-dimensional tensor and the second into a 1-dimensional one.
\<close>

datatype bound = Scalar real | PerAxis "real list"

text \<open>
  Element-wise binary operation of torch on two 1-dimensional tensors, with broadcasting:
  equal lengths combine pointwise, a tensor of length one is stretched to the other
  length, anything else raises.
\<close>

definition broadcast :: "(real \<Rightarrow> real \<Rightarrow> real) \<Rightarrow> real list \<Rightarrow> real list \<Rightarrow> error + real list" where
  "broadcast f xs ys =
     (if length xs = length ys then Inr (map2 f xs ys)
      else if length xs = 1 then Inr (map (f (hd xs)) ys)
      else if length ys = 1 then Inr (map (\<lambda>x. f x (hd ys)) xs)
      else Inl RuntimeError)"

text \<open>The same operation against the bound tensor; a 0-dimensional tensor always broadcasts.\<close>

fun with_bound :: "(real \<Rightarrow> real \<Rightarrow> real) \<Rightarrow> real list \<Rightarrow> bound \<Rightarrow> error + real list" where
  "with_bound f xs (Scalar b) = Inr (map (\<lambda>x. f x b) xs)"
| "with_bound f xs (PerAxis bs) = broadcast f xs bs"

fun neg_bound :: "bound \<Rightarrow> bound" where
  "neg_bound (Scalar b) = Scalar (- b)"
| "neg_bound (PerAxis bs) = PerAxis (map uminus bs)"

text \<open>
  \<open>ensure_safe_goal_position\<close>. The warning logged when the clamped goal is not close to
  the requested one does not change the value returned and is left out.
\<close>

definition ensure_safe_goal_position :: "real list \<Rightarrow> real list \<Rightarrow> bound \<Rightarrow> error + real list" where
  "ensure_safe_goal_position goal_pos present_pos max_relative_target =
     (case broadcast (-) goal_pos present_pos of
        Inl e \<Rightarrow> Inl e
      | Inr diff \<Rightarrow>
          (case with_bound min diff max_relative_target of
             Inl e \<Rightarrow> Inl e
           | Inr safe_diff \<Rightarrow>
               (case with_bound max safe_diff (neg_bound max_relative_target) of
                  Inl e \<Rightarrow> Inl e
                | Inr safe_diff' \<Rightarrow> broadcast (+) present_pos safe_diff')))"



section \<open>Device stubs\<close>

text \<open>
  Arms, cameras and tactile sensors are external collaborators. Each is modelled as a
  stub that records the calls made on it and whose \<open>connect\<close> and \<open>disconnect\<close> either
  succeed or raise, as fixed by a flag of the stub.
\<close>

record device =
  connect_raises :: bool
  disconnect_raises :: bool
  connect_calls :: nat
  disconnect_calls :: nat
  dev_connected :: bool

definition device_connect :: "'a device_scheme \<Rightarrow> error + 'a device_scheme" where
  "device_connect d =
     (if connect_raises d then Inl (DeviceError ''connect'')
      else Inr (d\<lparr>connect_calls := connect_calls d + 1, dev_connected := True\<rparr>))"

text \<open>
  \<open>disconnect()\<close> of a device: the call is counted whether it raises or not; the first
  component tells whether it raised.
\<close>

definition device_disconnect :: "'a device_scheme \<Rightarrow> bool \<times> 'a device_scheme" where
  "device_disconnect d =
     (disconnect_raises d,
      d\<lparr>disconnect_calls := disconnect_calls d + 1,
        dev_connected := (if disconnect_raises d then dev_connected d else False)\<rparr>)"

text \<open>
  A motors bus. \<open>present_position\<close> is what \<open>read("Present_Position")\<close> returns;
  \<open>writes\<close> is the log of \<open>write(register, values)\<close> calls, oldest first.
\<close>

record arm = device +
  motor_names :: "string list"
  present_position :: "real list"
  writes :: "(string \<times> real list) list"

definition arm_write :: "string \<Rightarrow> real list \<Rightarrow> arm \<Rightarrow> arm" where
  "arm_write register vals a = a\<lparr>writes := writes a @ [(register, vals)]\<rparr>"

text \<open>A numpy array: element type, shape and the elements in row-major order.\<close>

datatype ndarray = NdArray (nd_dtype: string) (nd_shape: "nat list") (nd_data: "real list")

record camera = device +
  height :: nat
  width :: nat
  channels :: nat
  frame :: ndarray
  async_read_calls :: nat

text \<open>Python values that a tactile payload may hold.\<close>

datatype pyval =
    PyNone
  | PyBool bool
  | PyInt int
  | PyFloat real
  | PyStr string
  | PyArray ndarray
  | PyObject

type_synonym payload = "(string \<times> pyval) list"

text \<open>What \<open>read()\<close> of a tactile sensor does: it raises, or returns a dictionary or \<open>None\<close>.\<close>

datatype read_outcome = ReadRaises | ReadReturns "payload option"

record tactile_config =
  config_type :: "string option"
  imgh :: "nat option"
  imgw :: "nat option"

record tactile_sensor = device +
  sensor_config :: tactile_config
  read_outcome :: read_outcome
  read_calls :: nat
  critical_error :: bool
  error_message :: "string option"
  force_cleaned :: bool

text \<open>\<open>getattr(sensor.config, "type", "unknown")\<close>\<close>

definition sensor_type_of :: "tactile_sensor \<Rightarrow> string" where
  "sensor_type_of sensor =
     (case config_type (sensor_config sensor) of None \<Rightarrow> ''unknown'' | Some t \<Rightarrow> t)"

definition getattr_default :: "'a option \<Rightarrow> 'a \<Rightarrow> 'a" where
  "getattr_default attr d = (case attr of None \<Rightarrow> d | Some v \<Rightarrow> v)"

section \<open>The controller\<close>

record robot_config =
  robot_type :: string
  max_relative_target :: "bound option"

text \<open>
  The device registries are Python dictionaries; they are association lists in insertion
  order here. The timing entries of \<open>logs\<close> are not modelled; the critical-error entries are.
\<close>

record robot =
  config :: robot_config
  leader_arms :: "(string \<times> arm) list"
  follower_arms :: "(string \<times> arm) list"
  cameras :: "(string \<times> camera) list"
  tactile_sensors :: "(string \<times> tactile_sensor) list"
  is_connected :: bool
  logs :: "(string \<times> pyval) list"

text \<open>Assigning a list of items to a dictionary, one after the other.\<close>

definition dict_update_all :: "('k \<times> 'v) list \<Rightarrow> ('k \<times> 'v) list \<Rightarrow> ('k \<times> 'v) list" where
  "dict_update_all kvs d = fold (\<lambda>(k, v). AList.update k v) kvs d"

section \<open>Feature schema\<close>

record feature =
  dtype :: string
  shape :: "nat list"
  names :: "string list option"

definition get_motor_names :: "(string \<times> arm) list \<Rightarrow> string list" where
  "get_motor_names arms = concat (map (\<lambda>(arm_name, arm). motor_names arm) arms)"

definition camera_features :: "robot \<Rightarrow> (string \<times> feature) list" where
  "camera_features r =
     dict_update_all
       (map (\<lambda>(name, camera).
          (''observation.images.'' @ name,
           \<lparr>dtype = ''video'',
            shape = [height camera, width camera, channels camera],
            names = Some [''height'', ''width'', ''channels'']\<rparr>)) (cameras r)) []"

definition tactile_key :: "string \<Rightarrow> string \<Rightarrow> string \<Rightarrow> string" where
  "tactile_key sensor_type name field =
     ''observation.tactile.'' @ sensor_type @ ''.'' @ name @ ''.'' @ field"

text \<open>The entries that one iteration of the loop of \<open>tactile_features\<close> assigns, in order.\<close>

definition sensor_features :: "string \<Rightarrow> tactile_sensor \<Rightarrow> (string \<times> feature) list" where
  "sensor_features name sensor =
     (let sensor_type = sensor_type_of sensor;
          key = tactile_key sensor_type name;
          scalar = (\<lambda>dt. \<lparr>dtype = dt, shape = [1], names = None\<rparr>);
          markers = \<lparr>dtype = ''float64'', shape = [400, 3],
                     names = Some [''marker_id'', ''coordinate'']\<rparr>;
          xyz = \<lparr>dtype = ''float64'', shape = [3], names = Some [''x'', ''y'', ''z'']\<rparr>;
          image = (\<lambda>h w. \<lparr>dtype = ''uint8'', shape = [h, w, 3],
                           names = Some [''height'', ''width'', ''channel'']\<rparr>)
      in [(key ''sensor_sn'', scalar ''string''),
          (key ''frame_index'', scalar ''int64''),
          (key ''send_timestamp'', scalar ''float64''),
          (key ''recv_timestamp'', scalar ''float64'')] @
         (if sensor_type = ''tac3d'' then
            [(key ''positions_3d'', markers),
             (key ''displacements_3d'', markers),
             (key ''forces_3d'', markers),
             (key ''resultant_force'', xyz),
             (key ''resultant_moment'', xyz)]
          else if sensor_type = ''gelsight'' then
            [(key ''tactile_image'',
              image (getattr_default (imgh (sensor_config sensor)) 240)
                    (getattr_default (imgw (sensor_config sensor)) 320))]
          else if sensor_type = ''digit'' then
            [(key ''tactile_image'', image 240 320)]
          else
            [(key ''resultant_force'', xyz),
             (key ''resultant_moment'', xyz)]))"

definition tactile_features :: "robot \<Rightarrow> (string \<times> feature) list" where
  "tactile_features r =
     fold (\<lambda>(name, sensor). dict_update_all (sensor_features name sensor)) (tactile_sensors r) []"

definition motor_features :: "robot \<Rightarrow> (string \<times> feature) list" where
  "motor_features r =
     (let action_names = get_motor_names (leader_arms r);
          state_names = get_motor_names (leader_arms r)
      in [(''action'',
           \<lparr>dtype = ''float32'', shape = [length action_names], names = Some action_names\<rparr>),
          (''observation.state'',
           \<lparr>dtype = ''float32'', shape = [length state_names], names = Some state_names\<rparr>)])"

definition features :: "robot \<Rightarrow> (string \<times> feature) list" where
  "features r =
     dict_update_all (tactile_features r) (dict_update_all (camera_features r) (motor_features r))"

section \<open>Tactile capture\<close>

text \<open>
  A torch tensor: element type, shape and elements. \<open>torch.zeros(shape, dtype)\<close> is kept
  symbolic as \<open>Zeros\<close>.
\<close>

datatype tensor = Zeros string "nat list" | Tensor string "nat list" "real list"

text \<open>The values of an observation: a Python value, a tensor, or a vector of motor positions.\<close>

datatype obsval = OPy pyval | OTensor tensor | OVec "real list"

definition bind_err :: "error + 'a \<Rightarrow> ('a \<Rightarrow> error + 'b) \<Rightarrow> error + 'b" where
  "bind_err m f = (case m of Inl e \<Rightarrow> Inl e | Inr x \<Rightarrow> f x)"

text \<open>\<open>data.get(k, d)\<close>\<close>

definition data_get :: "payload \<Rightarrow> string \<Rightarrow> pyval \<Rightarrow> pyval" where
  "data_get data k d = (case map_of data k of None \<Rightarrow> d | Some v \<Rightarrow> v)"

text \<open>\<open>k in data and data[k] is not None\<close>, with the value when it holds.\<close>

definition get_not_none :: "payload \<Rightarrow> string \<Rightarrow> pyval option" where
  "get_not_none data k =
     (case map_of data k of None \<Rightarrow> None | Some PyNone \<Rightarrow> None | Some v \<Rightarrow> Some v)"

definition trunc :: "real \<Rightarrow> real" where
  "trunc x = (if 0 \<le> x then of_int \<lfloor>x\<rfloor> else of_int \<lceil>x\<rceil>)"

text \<open>
  \<open>torch.tensor([v], dtype=torch.int64)\<close> and \<open>torch.tensor([v], dtype=torch.float64)\<close>:
  numbers and arrays convert, anything else raises.
\<close>

fun int64_tensor :: "pyval \<Rightarrow> error + tensor" where
  "int64_tensor (PyInt i) = Inr (Tensor ''int64'' [1] [of_int i])"
| "int64_tensor (PyBool b) = Inr (Tensor ''int64'' [1] [if b then 1 else 0])"
| "int64_tensor (PyFloat x) = Inr (Tensor ''int64'' [1] [trunc x])"
| "int64_tensor (PyArray a) = Inr (Tensor ''int64'' (1 # nd_shape a) (map trunc (nd_data a)))"
| "int64_tensor v = Inl TypeError"

fun float64_tensor :: "pyval \<Rightarrow> error + tensor" where
  "float64_tensor (PyInt i) = Inr (Tensor ''float64'' [1] [of_int i])"
| "float64_tensor (PyBool b) = Inr (Tensor ''float64'' [1] [if b then 1 else 0])"
| "float64_tensor (PyFloat x) = Inr (Tensor ''float64'' [1] [x])"
| "float64_tensor (PyArray a) = Inr (Tensor ''float64'' (1 # nd_shape a) (nd_data a))"
| "float64_tensor v = Inl TypeError"

text \<open>\<open>torch.from_numpy(image)\<close> raises on anything but an array.\<close>

fun from_numpy :: "pyval \<Rightarrow> error + tensor" where
  "from_numpy (PyArray a) = Inr (Tensor (nd_dtype a) (nd_shape a) (nd_data a))"
| "from_numpy v = Inl TypeError"

text \<open>\<open>torch.from_numpy(x.astype(np.float64))\<close>: only an array has \<open>astype\<close>.\<close>

fun astype_float64 :: "pyval \<Rightarrow> error + tensor" where
  "astype_float64 (PyArray a) = Inr (Tensor ''float64'' (nd_shape a) (nd_data a))"
| "astype_float64 v = Inl AttributeError"

text \<open>The 400 by 3 marker arrays of a tac3d payload.\<close>

definition markers_3d :: "payload \<Rightarrow> string \<Rightarrow> error + tensor" where
  "markers_3d data k =
     (case get_not_none data k of
        Some v \<Rightarrow> astype_float64 v
      | None \<Rightarrow> Inr (Zeros ''float64'' [400, 3]))"

text \<open>
  The resultant force or moment of a tac3d payload: the first three entries of an array of
  shape \<open>(3,)\<close> or of the first row of a two-dimensional array; indexing the row raises
  when it has fewer than three columns.
\<close>

definition resultant :: "payload \<Rightarrow> string \<Rightarrow> error + tensor" where
  "resultant data k =
     (case get_not_none data k of
        Some (PyArray force) \<Rightarrow>
          (if 3 \<le> length (nd_data force) then
             (if length (nd_shape force) = 1 then
                Inr (Tensor ''float64'' [3]
                       [nd_data force ! 0, nd_data force ! 1, nd_data force ! 2])
              else if length (nd_shape force) = 2 \<and> 1 \<le> nd_shape force ! 0 then
                (if 3 \<le> nd_shape force ! 1 then
                   Inr (Tensor ''float64'' [3]
                          [nd_data force ! 0, nd_data force ! 1, nd_data force ! 2])
                 else Inl IndexError)
              else Inr (Zeros ''float64'' [3]))
           else Inr (Zeros ''float64'' [3]))
      | _ \<Rightarrow> Inr (Zeros ''float64'' [3]))"

text \<open>The image of a digit payload, repaired or replaced by a zero image.\<close>

definition digit_image :: "payload \<Rightarrow> tensor" where
  "digit_image data =
     (case get_not_none data ''tactile_image'' of
        Some (PyArray img) \<Rightarrow>
          (if length (nd_shape img) = 3 \<and> nd_shape img ! 2 = 3 then
             Tensor (nd_dtype img) (nd_shape img) (nd_data img)
           else if length (nd_shape img) = 1 \<and> nd_shape img ! 0 = 240 * 320 * 3 then
             Tensor (nd_dtype img) [240, 320, 3] (nd_data img)
           else Zeros ''uint8'' [240, 320, 3])
      | Some v \<Rightarrow> Zeros ''uint8'' [240, 320, 3]
      | None \<Rightarrow>
          (case get_not_none data ''image'' of
             Some (PyArray img) \<Rightarrow>
               (if length (nd_shape img) = 3 \<and> nd_shape img ! 2 = 3 then
                  Tensor (nd_dtype img) (nd_shape img) (nd_data img)
                else Zeros ''uint8'' [240, 320, 3])
           | Some v \<Rightarrow> Zeros ''uint8'' [240, 320, 3]
           | None \<Rightarrow> Zeros ''uint8'' [240, 320, 3]))"

text \<open>
  The four metadata entries of a gelsight or digit payload (both branches of the source
  compute them the same way); \<open>now\<close> is what \<open>time.time()\<close> returns.
\<close>

definition image_sensor_meta :: "real \<Rightarrow> string \<Rightarrow> payload \<Rightarrow> error + (string \<times> obsval) list" where
  "image_sensor_meta now name data =
     bind_err (int64_tensor (data_get data ''frame_index'' (PyInt 0))) (\<lambda>frame_index.
     bind_err (float64_tensor (data_get data ''timestamp'' (PyFloat now))) (\<lambda>stamp.
     Inr [(name @ ''_sensor_sn'', OPy (data_get data ''device_name'' (PyStr [])))
         ,(name @ ''_frame_index'', OTensor frame_index)
         ,(name @ ''_send_timestamp'', OTensor stamp)
         ,(name @ ''_recv_timestamp'', OTensor stamp)]))"

text \<open>
  Stage 2 of \<open>_get_tactile_observation\<close> for one sensor: the assignments made to the flat
  dictionary \<open>tactile_data\<close>, in order. \<open>data\<close> is the payload read in stage 1 (\<open>None\<close> when
  the read raised) and \<open>now\<close> is what \<open>time.time()\<close> returns.
\<close>

definition process_sensor ::
  "real \<Rightarrow> string \<Rightarrow> tactile_sensor \<Rightarrow> payload option \<Rightarrow> error + (string \<times> obsval) list" where
  "process_sensor now name sensor raw =
     (let sensor_type = sensor_type_of sensor;
          zeros3 = [(name @ ''_resultant_force'', OTensor (Zeros ''float64'' [3])),
                    (name @ ''_resultant_moment'', OTensor (Zeros ''float64'' [3]))]
      in case raw of
        Some (item # items) \<Rightarrow>
          (let data = item # items in
           bind_err
             (if sensor_type = ''tac3d'' then
                bind_err (int64_tensor (data_get data ''index'' (PyInt 0))) (\<lambda>frame_index.
                bind_err (float64_tensor
                            (if map_of data ''sendTimestamp'' \<noteq> None
                             then data_get data ''sendTimestamp'' (PyFloat 0)
                             else data_get data ''recvTimestamp'' (PyFloat 0))) (\<lambda>send.
                bind_err (float64_tensor (data_get data ''recvTimestamp'' (PyFloat 0))) (\<lambda>recv.
                Inr [(name @ ''_sensor_sn'', OPy (data_get data ''SN'' (PyStr [])))
                    ,(name @ ''_frame_index'', OTensor frame_index)
                    ,(name @ ''_send_timestamp'', OTensor send)
                    ,(name @ ''_recv_timestamp'', OTensor recv)])))
              else if sensor_type = ''gelsight'' then image_sensor_meta now name data
              else if sensor_type = ''digit'' then
                bind_err (image_sensor_meta now name data) (\<lambda>meta.
                Inr (meta @ [(name @ ''_tactile_image'', OTensor (digit_image data))]))
              else Inr zeros3)
             (\<lambda>first.
                if sensor_type = ''tac3d'' then
                  bind_err (markers_3d data ''3D_Positions'') (\<lambda>positions.
                  bind_err (markers_3d data ''3D_Displacements'') (\<lambda>displacements.
                  bind_err (markers_3d data ''3D_Forces'') (\<lambda>forces_3d.
                  bind_err (resultant data ''resultant_force'') (\<lambda>force.
                  bind_err (resultant data ''resultant_moment'') (\<lambda>moment.
                  Inr (first @
                       [(name @ ''_positions_3d'', OTensor positions)
                       ,(name @ ''_displacements_3d'', OTensor displacements)
                       ,(name @ ''_forces_3d'', OTensor forces_3d)
                       ,(name @ ''_resultant_force'', OTensor force)
                       ,(name @ ''_resultant_moment'', OTensor moment)]))))))
                else if sensor_type = ''gelsight'' then
                  (case get_not_none data ''tactile_image'' of
                     Some img \<Rightarrow>
                       bind_err (from_numpy img) (\<lambda>t.
                       Inr (first @ [(name @ ''_tactile_image'', OTensor t)]))
                   | None \<Rightarrow>
                       (case get_not_none data ''image'' of
                          Some img \<Rightarrow>
                            bind_err (from_numpy img) (\<lambda>t.
                            Inr (first @ [(name @ ''_tactile_image'', OTensor t)]))
                        | None \<Rightarrow> Inr first))
                else Inr (first @ zeros3)))
      | _ \<Rightarrow>
          Inr ([(name @ ''_sensor_sn'', OPy (PyStr []))
               ,(name @ ''_frame_index'', OTensor (Tensor ''int64'' [1] [0]))
               ,(name @ ''_send_timestamp'', OTensor (Tensor ''float64'' [1] [0]))
               ,(name @ ''_recv_timestamp'', OTensor (Tensor ''float64'' [1] [0]))] @
               (if sensor_type = ''tac3d'' then
                  [(name @ ''_positions_3d'', OTensor (Zeros ''float64'' [400, 3]))
                  ,(name @ ''_displacements_3d'', OTensor (Zeros ''float64'' [400, 3]))
                  ,(name @ ''_forces_3d'', OTensor (Zeros ''float64'' [400, 3]))
                  ,(name @ ''_resultant_force'', OTensor (Zeros ''float64'' [3]))
                  ,(name @ ''_resultant_moment'', OTensor (Zeros ''float64'' [3]))]
                else if sensor_type = ''gelsight'' then
                  [(name @ ''_tactile_image'',
                    OTensor (Zeros ''uint8''
                      [getattr_default (imgh (sensor_config sensor)) 240,
                       getattr_default (imgw (sensor_config sensor)) 320, 3]))]
                else if sensor_type = ''digit'' then
                  [(name @ ''_tactile_image'', OTensor (Zeros ''uint8'' [240, 320, 3]))]
                else zeros3)))"

text \<open>Stage 1: what ends up in \<open>tactile_data_raw\<close> for a sensor.\<close>

definition raw_of :: "tactile_sensor \<Rightarrow> payload option" where
  "raw_of sensor = (case read_outcome sensor of ReadRaises \<Rightarrow> None | ReadReturns data \<Rightarrow> data)"

fun stage2 ::
  "real \<Rightarrow> (string \<times> tactile_sensor) list \<Rightarrow> (string \<times> obsval) list \<Rightarrow> error + (string \<times> obsval) list" where
  "stage2 now [] tactile_data = Inr tactile_data"
| "stage2 now ((name, sensor) # rest) tactile_data =
     (case process_sensor now name sensor (raw_of sensor) of
        Inl e \<Rightarrow> Inl e
      | Inr kvs \<Rightarrow> stage2 now rest (dict_update_all kvs tactile_data))"

text \<open>\<open>obs[key] = tactile_data[name_field]\<close> for a list of fields; a missing entry raises.\<close>

fun copy_fields ::
  "(string \<times> obsval) list \<Rightarrow> string \<Rightarrow> string \<Rightarrow> string list \<Rightarrow> error + (string \<times> obsval) list" where
  "copy_fields tactile_data sensor_type name [] = Inr []"
| "copy_fields tactile_data sensor_type name (field # others) =
     (case map_of tactile_data (name @ ''_'' @ field) of
        None \<Rightarrow> Inl (KeyError (name @ ''_'' @ field))
      | Some v \<Rightarrow>
          (case copy_fields tactile_data sensor_type name others of
             Inl e \<Rightarrow> Inl e
           | Inr kvs \<Rightarrow> Inr ((tactile_key sensor_type name field, v) # kvs)))"

text \<open>The same under the guard \<open>if name_field in tactile_data\<close>.\<close>

definition copy_if_present ::
  "(string \<times> obsval) list \<Rightarrow> string \<Rightarrow> string \<Rightarrow> string list \<Rightarrow> (string \<times> obsval) list" where
  "copy_if_present tactile_data sensor_type name wanted =
     List.map_filter (\<lambda>field.
        map_option (\<lambda>v. (tactile_key sensor_type name field, v))
          (map_of tactile_data (name @ ''_'' @ field))) wanted"

fun stage3 ::
  "(string \<times> obsval) list \<Rightarrow> (string \<times> tactile_sensor) list \<Rightarrow> (string \<times> obsval) list
     \<Rightarrow> error + (string \<times> obsval) list" where
  "stage3 tactile_data [] obs_dict = Inr obs_dict"
| "stage3 tactile_data ((name, sensor) # rest) obs_dict =
     (let sensor_type = sensor_type_of sensor in
      case copy_fields tactile_data sensor_type name
             ([''sensor_sn'', ''frame_index'', ''send_timestamp'', ''recv_timestamp''] @
              (if sensor_type = ''tac3d'' then
                 [''positions_3d'', ''displacements_3d'', ''forces_3d'',
                  ''resultant_force'', ''resultant_moment'']
               else if sensor_type = ''gelsight'' then [''tactile_image'']
               else [])) of
        Inl e \<Rightarrow> Inl e
      | Inr kvs \<Rightarrow>
          stage3 tactile_data rest
            (dict_update_all
               (kvs @
                (if sensor_type = ''tac3d'' \<or> sensor_type = ''gelsight'' then []
                 else if sensor_type = ''digit'' then
                   copy_if_present tactile_data sensor_type name [''tactile_image'']
                 else
                   copy_if_present tactile_data sensor_type name
                     [''resultant_force'', ''resultant_moment'']))
               obs_dict))"

text \<open>
  \<open>_get_tactile_observation\<close>. Every sensor is read once. The reads run on a thread pool
  and their results are stored under the sensor's name, so the order in which they
  complete does not matter; they are taken in registry order.
\<close>

definition get_tactile_observation :: "real \<Rightarrow> robot \<Rightarrow> error + ((string \<times> obsval) list \<times> robot)" where
  "get_tactile_observation now r =
     (let r' = r\<lparr>tactile_sensors :=
                  map (\<lambda>(name, sensor). (name, sensor\<lparr>read_calls := read_calls sensor + 1\<rparr>))
                    (tactile_sensors r)\<rparr>
      in case stage2 now (tactile_sensors r) [] of
           Inl e \<Rightarrow> Inl e
         | Inr tactile_data \<Rightarrow>
             (case stage3 tactile_data (tactile_sensors r) [] of
                Inl e \<Rightarrow> Inl e
              | Inr obs_dict \<Rightarrow> Inr (obs_dict, r')))"

section \<open>Capture, teleoperation and action dispatch\<close>

text \<open>
  The loops of the source keep their intermediate results in dictionaries keyed by the
  registry name (\<open>follower_pos\<close>, \<open>follower_goal_pos\<close>, \<open>images\<close>) and read them back under
  the same names in the same order. Registry names are dictionary keys, hence unique, so
  each lookup returns the value stored for that entry; the model passes it along with
  the entry. Only \<open>leader_pos[name]\<close>, which looks a follower's name up among the leaders,
  is a lookup that can fail.
\<close>

text \<open>\<open>torch.cat\<close> of 1-dimensional tensors; it raises on an empty list.\<close>

definition torch_cat :: "real list list \<Rightarrow> error + real list" where
  "torch_cat ts = (if ts = [] then Inl RuntimeError else Inr (concat ts))"

text \<open>\<open>goal_pos.numpy().astype(np.float32)\<close>: the identity on exact reals.\<close>

definition astype_float32 :: "real list \<Rightarrow> real list" where
  "astype_float32 xs = xs"

text \<open>The clamp against the follower's present position, when a bound is configured.\<close>

definition cap_goal :: "bound option \<Rightarrow> real list \<Rightarrow> arm \<Rightarrow> error + real list" where
  "cap_goal mrt goal_pos follower =
     (case mrt of
        None \<Rightarrow> Inr goal_pos
      | Some b \<Rightarrow> ensure_safe_goal_position goal_pos (present_position follower) b)"

text \<open>
  The follower loop of \<open>teleop_step\<close>: the goals kept for recording and the followers
  after the writes.
\<close>

fun teleop_followers ::
  "bound option \<Rightarrow> (string \<times> real list) list \<Rightarrow> (string \<times> arm) list
     \<Rightarrow> error + ((string \<times> real list) list \<times> (string \<times> arm) list)" where
  "teleop_followers mrt leader_pos [] = Inr ([], [])"
| "teleop_followers mrt leader_pos ((name, follower) # rest) =
     (case map_of leader_pos name of
        None \<Rightarrow> Inl (KeyError name)
      | Some goal_pos \<Rightarrow>
          (case cap_goal mrt goal_pos follower of
             Inl e \<Rightarrow> Inl e
           | Inr safe_goal \<Rightarrow>
               (case teleop_followers mrt leader_pos rest of
                  Inl e \<Rightarrow> Inl e
                | Inr (follower_goal_pos, followers) \<Rightarrow>
                    Inr ((name, safe_goal) # follower_goal_pos,
                         (name, arm_write ''Goal_Position'' (astype_float32 safe_goal) follower)
                           # followers))))"

text \<open>\<open>observation.state\<close>: the followers' present positions, concatenated.\<close>

definition read_state :: "(string \<times> arm) list \<Rightarrow> error + real list" where
  "read_state followers = torch_cat (map (\<lambda>(name, follower). present_position follower) followers)"

text \<open>One \<open>async_read()\<close> per camera.\<close>

definition read_cameras :: "(string \<times> camera) list \<Rightarrow> (string \<times> obsval) list \<times> (string \<times> camera) list" where
  "read_cameras cams =
     (map (\<lambda>(name, cam).
         (name, OTensor (Tensor (nd_dtype (frame cam)) (nd_shape (frame cam)) (nd_data (frame cam))))) cams,
      map (\<lambda>(name, cam). (name, cam\<lparr>async_read_calls := async_read_calls cam + 1\<rparr>)) cams)"

text \<open>The latched critical errors of the tactile sensors go to the logs.\<close>

definition flag_critical_errors :: "robot \<Rightarrow> robot" where
  "flag_critical_errors r =
     r\<lparr>logs :=
         fold (\<lambda>(name, sensor) lg.
                 if critical_error sensor then
                   AList.update (''tactile_sensor_'' @ name @ ''_error_message'')
                     (PyStr (getattr_default (error_message sensor) ''Unknown critical error''))
                     (AList.update (''tactile_sensor_'' @ name @ ''_critical_error'') (PyBool True) lg)
                 else lg)
           (tactile_sensors r) (logs r)\<rparr>"

text \<open>
  The part of the capture that \<open>capture_observation\<close> and the recording branch of
  \<open>teleop_step\<close> share after the state is read (the source repeats the code): camera
  images, tactile observation, critical-error flags, and the assembled observation
  dictionary.
\<close>

definition capture_devices ::
  "real \<Rightarrow> real list \<Rightarrow> robot \<Rightarrow> error + ((string \<times> obsval) list \<times> robot)" where
  "capture_devices now state r =
     (case read_cameras (cameras r) of
        (images, cams) \<Rightarrow>
          (case get_tactile_observation now (r\<lparr>cameras := cams\<rparr>) of
             Inl e \<Rightarrow> Inl e
           | Inr (tactile_obs, r') \<Rightarrow>
               Inr (dict_update_all tactile_obs
                      (dict_update_all
                         (map (\<lambda>(name, img). (''observation.images.'' @ name, img)) images)
                         [(''observation.state'', OVec state)]),
                    flag_critical_errors r')))"

definition capture_observation :: "real \<Rightarrow> robot \<Rightarrow> error + ((string \<times> obsval) list \<times> robot)" where
  "capture_observation now r =
     (if \<not> is_connected r then Inl RobotDeviceNotConnectedError
      else
        case read_state (follower_arms r) of
          Inl e \<Rightarrow> Inl e
        | Inr state \<Rightarrow> capture_devices now state r)"

text \<open>
  \<open>teleop_step\<close>. The result is \<open>None\<close> without recording and the pair of the observation
  and the action dictionary with it.
\<close>

definition teleop_step ::
  "real \<Rightarrow> bool \<Rightarrow> robot
     \<Rightarrow> error + (((string \<times> obsval) list \<times> (string \<times> obsval) list) option \<times> robot)" where
  "teleop_step now record_data r =
     (if \<not> is_connected r then Inl RobotDeviceNotConnectedError
      else
        case teleop_followers (max_relative_target (config r))
               (map (\<lambda>(name, leader). (name, present_position leader)) (leader_arms r))
               (follower_arms r) of
          Inl e \<Rightarrow> Inl e
        | Inr (follower_goal_pos, followers) \<Rightarrow>
            (let r1 = r\<lparr>follower_arms := followers\<rparr> in
             if \<not> record_data then Inr (None, r1)
             else
               case read_state followers of
                 Inl e \<Rightarrow> Inl e
               | Inr state \<Rightarrow>
                   (case torch_cat (map snd follower_goal_pos) of
                      Inl e \<Rightarrow> Inl e
                    | Inr action \<Rightarrow>
                        (case capture_devices now state r1 of
                           Inl e \<Rightarrow> Inl e
                         | Inr (obs_dict, r2) \<Rightarrow>
                             Inr (Some (obs_dict, [(''action'', OVec action)]), r2)))))"

text \<open>The loop of \<open>send_action\<close>; \<open>idx\<close> is \<open>from_idx\<close>, which equals \<open>to_idx\<close> between iterations.\<close>

fun send_action_loop ::
  "bound option \<Rightarrow> real list \<Rightarrow> nat \<Rightarrow> (string \<times> arm) list
     \<Rightarrow> error + (real list list \<times> (string \<times> arm) list)" where
  "send_action_loop mrt action idx [] = Inr ([], [])"
| "send_action_loop mrt action idx ((name, follower) # rest) =
     (let to_idx = idx + length (motor_names follower);
          goal_pos = drop idx (take to_idx action)
      in case cap_goal mrt goal_pos follower of
           Inl e \<Rightarrow> Inl e
         | Inr safe_goal \<Rightarrow>
             (case send_action_loop mrt action to_idx rest of
                Inl e \<Rightarrow> Inl e
              | Inr (action_sent, followers) \<Rightarrow>
                  Inr (safe_goal # action_sent,
                       (name, arm_write ''Goal_Position'' (astype_float32 safe_goal) follower)
                         # followers)))"

definition send_action :: "robot \<Rightarrow> real list \<Rightarrow> error + (real list \<times> robot)" where
  "send_action r action =
     (if \<not> is_connected r then Inl RobotDeviceNotConnectedError
      else
        case send_action_loop (max_relative_target (config r)) action 0 (follower_arms r) of
          Inl e \<Rightarrow> Inl e
        | Inr (action_sent, followers) \<Rightarrow>
            (case torch_cat action_sent of
               Inl e \<Rightarrow> Inl e
             | Inr sent \<Rightarrow> Inr (sent, r\<lparr>follower_arms := followers\<rparr>)))"

section \<open>Lifecycle\<close>

text \<open>\<open>connect()\<close> on every device of a registry, in order; the first failure propagates.\<close>

fun connect_all :: "(string \<times> 'a device_scheme) list \<Rightarrow> error + (string \<times> 'a device_scheme) list" where
  "connect_all [] = Inr []"
| "connect_all ((name, d) # rest) =
     (case device_connect d of
        Inl e \<Rightarrow> Inl e
      | Inr d' \<Rightarrow>
          (case connect_all rest of
             Inl e \<Rightarrow> Inl e
           | Inr ds \<Rightarrow> Inr ((name, d') # ds)))"

text \<open>
  \<open>connect\<close>. Calibration (files and the external calibration routines) and the
  robot-type preset run after the devices are connected; what they do to the robot, or
  the device error they raise, is the parameter \<open>setup\<close>.
\<close>

definition connect :: "(robot \<Rightarrow> string + robot) \<Rightarrow> robot \<Rightarrow> error + robot" where
  "connect setup r =
     (if is_connected r then Inl RobotDeviceAlreadyConnectedError
      else if leader_arms r = [] \<and> follower_arms r = [] \<and> cameras r = [] then
        Inl (ValueError ''ManipulatorRobot does not have any device to connect.'')
      else
        bind_err (connect_all (leader_arms r)) (\<lambda>leaders.
        bind_err (connect_all (follower_arms r)) (\<lambda>followers.
        bind_err (connect_all (cameras r)) (\<lambda>cams.
        bind_err (connect_all (tactile_sensors r)) (\<lambda>sensors.
          case setup (r\<lparr>leader_arms := leaders, follower_arms := followers,
                         cameras := cams, tactile_sensors := sensors\<rparr>) of
            Inl msg \<Rightarrow> Inl (DeviceError msg)
          | Inr r' \<Rightarrow> Inr (r'\<lparr>is_connected := True\<rparr>))))))"

text \<open>
  A tactile sensor whose \<open>disconnect()\<close> raises goes through the forced cleanup, which is
  itself guarded: the sensor's handle is dropped and it is marked as not connected.
\<close>

definition disconnect_tactile :: "tactile_sensor \<Rightarrow> tactile_sensor" where
  "disconnect_tactile sensor =
     (case device_disconnect sensor of
        (raised, sensor') \<Rightarrow>
          if raised then sensor'\<lparr>dev_connected := False, force_cleaned := True\<rparr> else sensor')"

text \<open>
  \<open>disconnect\<close>. Every per-device call sits in its own \<open>try\<close>/\<open>except Exception\<close>, so a
  device that raises does not stop the loop. The parameter \<open>force\<close> is not used by the
  source.
\<close>

definition disconnect :: "bool \<Rightarrow> robot \<Rightarrow> error + robot" where
  "disconnect force r =
     (if \<not> is_connected r then Inl RobotDeviceNotConnectedError
      else
        Inr (r\<lparr>follower_arms :=
                 map (\<lambda>(name, follower). (name, snd (device_disconnect follower))) (follower_arms r),
               leader_arms :=
                 map (\<lambda>(name, leader). (name, snd (device_disconnect leader))) (leader_arms r),
               cameras :=
                 map (\<lambda>(name, cam). (name, snd (device_disconnect cam))) (cameras r),
               tactile_sensors :=
                 map (\<lambda>(name, sensor). (name, disconnect_tactile sensor)) (tactile_sensors r),
               is_connected := False\<rparr>))"

text \<open>
  \<open>__init__\<close>: the registries hold the device instances made from the configuration; the
  controller starts disconnected with empty logs.
\<close>

definition init ::
  "robot_config \<Rightarrow> (string \<times> arm) list \<Rightarrow> (string \<times> arm) list \<Rightarrow> (string \<times> camera) list
     \<Rightarrow> (string \<times> tactile_sensor) list \<Rightarrow> robot" where
  "init cfg followers leaders cams sensors =
     \<lparr>config = cfg, leader_arms = leaders, follower_arms = followers, cameras = cams,
      tactile_sensors = sensors, is_connected = False, logs = []\<rparr>"

section \<open>Stub devices for concrete runs\<close>

definition stub_arm :: "string list \<Rightarrow> real list \<Rightarrow> arm" where
  "stub_arm motors pos =
     \<lparr>connect_raises = False, disconnect_raises = False, connect_calls = 0,
      disconnect_calls = 0, dev_connected = False,
      motor_names = motors, present_position = pos, writes = []\<rparr>"

definition stub_camera :: "bool \<Rightarrow> camera" where
  "stub_camera raises =
     \<lparr>connect_raises = False, disconnect_raises = raises, connect_calls = 0,
      disconnect_calls = 0, dev_connected = False,
      height = 1, width = 2, channels = 3,
      frame = NdArray ''uint8'' [1, 2, 3] [0, 0, 0, 0, 0, 0], async_read_calls = 0\<rparr>"

definition stub_sensor :: "string \<Rightarrow> read_outcome \<Rightarrow> tactile_sensor" where
  "stub_sensor t outcome =
     \<lparr>connect_raises = False, disconnect_raises = False, connect_calls = 0,
      disconnect_calls = 0, dev_connected = False,
      sensor_config = \<lparr>config_type = Some t, imgh = None, imgw = None\<rparr>,
      read_outcome = outcome, read_calls = 0, critical_error = False,
      error_message = None, force_cleaned = False\<rparr>"

definition stub_config :: "bound option \<Rightarrow> robot_config" where
  "stub_config mrt = \<lparr>robot_type = ''koch'', max_relative_target = mrt\<rparr>"

text \<open>A controller with one follower arm and nothing else, not yet connected.\<close>

definition one_follower :: robot where
  "one_follower = init (stub_config None) [(''main'', stub_arm [''gripper''] [0])] [] [] []"

text \<open>
  A connected controller with three devices, a follower arm, a camera and a tactile
  sensor, in which the second one, the camera, raises on \<open>disconnect()\<close>.
\<close>

definition three_devices :: robot where
  "three_devices =
     (init (stub_config None) [(''main'', stub_arm [''gripper''] [0])] []
        [(''wrist'', stub_camera True)]
        [(''fingertip'', stub_sensor ''digit'' ReadRaises)])\<lparr>is_connected := True\<rparr>"

text \<open>A controller whose only device is a digit sensor named fingertip.\<close>

definition tactile_only :: robot where
  "tactile_only = init (stub_config None) [] [] [] [(''fingertip'', stub_sensor ''digit'' ReadRaises)]"

text \<open>A connected controller with a gelsight or digit sensor whose payload has no image.\<close>

definition image_missing :: "string \<Rightarrow> robot" where
  "image_missing t =
     (init (stub_config None) [(''main'', stub_arm [''gripper''] [0])] [] []
        [(''gs'', stub_sensor t
            (ReadReturns (Some [(''device_name'', PyStr ''gs''), (''frame_index'', PyInt 7),
                                (''timestamp'', PyFloat 1)])))])\<lparr>is_connected := True\<rparr>"

text \<open>
  A connected teleoperation pair: leader and follower \<open>main\<close> with two motors each, the
  leader far from the follower, a camera and a tactile sensor.
\<close>

definition teleop_pair :: "bound option \<Rightarrow> robot" where
  "teleop_pair mrt =
     (init (stub_config mrt)
        [(''main'', stub_arm [''shoulder_pan'', ''gripper''] [0, 0])]
        [(''main'', stub_arm [''shoulder_pan'', ''gripper''] [30, - 40])]
        [(''wrist'', stub_camera False)]
        [(''fingertip'', stub_sensor ''digit'' ReadRaises)])\<lparr>is_connected := True\<rparr>"


text \<open>A connected controller whose leader has one motor and whose follower has two.\<close>

definition mismatched :: robot where
  "mismatched =
     (init (stub_config None)
        [(''main'', stub_arm [''shoulder_pan'', ''gripper''] [10, 20])]
        [(''main'', stub_arm [''gripper''] [0])] [] [])\<lparr>is_connected := True\<rparr>"

section \<open>Notions used to state the properties\<close>



text \<open>
  \<open>sent_to mrt (goal_pos, name, follower) seg\<close>: \<open>seg\<close> is what is sent to the follower for
  the requested \<open>goal_pos\<close>: the goal itself when no bound is configured, the result of
  the clamp against the follower's present position otherwise.
\<close>

definition sent_to :: "bound option \<Rightarrow> real list \<times> string \<times> arm \<Rightarrow> real list \<Rightarrow> bool" where
  "sent_to mrt = (\<lambda>(goal_pos, name, follower) seg.
      case mrt of
        None \<Rightarrow> seg = goal_pos
      | Some b \<Rightarrow> ensure_safe_goal_position goal_pos (present_position follower) b = Inr seg)"

text \<open>The followers after one write of \<open>Goal_Position\<close> each.\<close>

definition written :: "(string \<times> arm) list \<Rightarrow> real list list \<Rightarrow> (string \<times> arm) list" where
  "written followers segs =
     map2 (\<lambda>(name, follower) seg. (name, arm_write ''Goal_Position'' seg follower)) followers segs"

text \<open>The dictionary \<open>leader_pos\<close> of \<open>teleop_step\<close>.\<close>

definition leader_poses :: "robot \<Rightarrow> (string \<times> real list) list" where
  "leader_poses r = map (\<lambda>(name, leader). (name, present_position leader)) (leader_arms r)"

text \<open>
  \<open>teleop_goal\<close>: the goal recorded for a follower is what is sent to it for the pose of
  the leader of the same name.
\<close>

definition teleop_goal ::
  "bound option \<Rightarrow> (string \<times> real list) list \<Rightarrow> string \<times> arm \<Rightarrow> string \<times> real list \<Rightarrow> bool" where
  "teleop_goal mrt leader_pos = (\<lambda>(name, follower) (name', goal).
      name' = name \<and>
      (\<exists>pose. map_of leader_pos name = Some pose \<and> sent_to mrt (pose, name, follower) goal))"

text \<open>
  The placeholder of a declared feature: the empty string, a single zero, or a zero
  tensor of the declared shape and element type.
\<close>

definition placeholder :: "feature \<Rightarrow> obsval" where
  "placeholder f =
     (if dtype f = ''string'' then OPy (PyStr [])
      else if shape f = [1] then OTensor (Tensor (dtype f) [1] [0])
      else OTensor (Zeros (dtype f) (shape f)))"

text \<open>The keys under which tactile observations are stored.\<close>

definition tactile_keys :: "string set" where
  "tactile_keys = {k. \<exists>rest. k = ''observation.tactile.'' @ rest}"

section \<open>Safety clamp: the result stays within the bound\<close>




section \<open>Lifecycle: connect and disconnect guards\<close>

lemma bind_err_Inr: "bind_err m f = Inr y \<Longrightarrow> \<exists>x. m = Inr x \<and> f x = Inr y"
  by (cases m) (simp_all add: bind_err_def)

lemma connected_raises: "is_connected r \<Longrightarrow> connect setup r = Inl RobotDeviceAlreadyConnectedError"
  by (simp add: connect_def)

lemma not_connected_raises:
  "\<not> is_connected r \<Longrightarrow>
      teleop_step now record_data r = Inl RobotDeviceNotConnectedError \<and>
      capture_observation now r = Inl RobotDeviceNotConnectedError \<and>
      send_action r action = Inl RobotDeviceNotConnectedError \<and>
      disconnect force r = Inl RobotDeviceNotConnectedError"
  by (simp add: teleop_step_def capture_observation_def send_action_def disconnect_def)

lemma disconnect_disconnected: "disconnect force r = Inr r' \<Longrightarrow> \<not> is_connected r'"
  by (cases "is_connected r") (auto simp: disconnect_def)

lemma connect_connected:
  assumes "connect setup r = Inr r'"
  shows "is_connected r'"
proof -
  from assms have nc: "\<not> is_connected r"
    by (cases "is_connected r") (simp_all add: connect_def)
  from assms nc have dev: "\<not> (leader_arms r = [] \<and> follower_arms r = [] \<and> cameras r = [])"
    by (cases "leader_arms r = [] \<and> follower_arms r = [] \<and> cameras r = []")
       (simp_all add: connect_def)
  from assms nc dev obtain leaders followers cams sensors where
    s: "(case setup (r\<lparr>leader_arms := leaders, follower_arms := followers,
                         cameras := cams, tactile_sensors := sensors\<rparr>) of
            Inl msg \<Rightarrow> Inl (DeviceError msg)
          | Inr r'' \<Rightarrow> Inr (r''\<lparr>is_connected := True\<rparr>)) = Inr r'"
    unfolding connect_def by (simp only: if_False) (blast dest!: bind_err_Inr)
  then show ?thesis
    by (cases "setup (r\<lparr>leader_arms := leaders, follower_arms := followers,
                         cameras := cams, tactile_sensors := sensors\<rparr>)") auto
qed

text \<open>
  C6. \<open>connect\<close> on a connected controller, in particular a second \<open>connect\<close> after a
  successful one, raises the already-connected error. On a controller that is not
  connected, as it is after \<open>__init__\<close> and after a successful \<open>disconnect\<close>, each of
  \<open>teleop_step\<close>, \<open>capture_observation\<close>, \<open>send_action\<close> and \<open>disconnect\<close> raises the
  not-connected error; so a second \<open>disconnect\<close> after a successful one raises it.
\<close>

theorem lifecycle_errors:
  "(is_connected r \<longrightarrow> connect setup r = Inl RobotDeviceAlreadyConnectedError) \<and>
   (connect setup r = Inr r1 \<longrightarrow> connect setup' r1 = Inl RobotDeviceAlreadyConnectedError) \<and>
   (\<not> is_connected r \<longrightarrow>
      teleop_step now record_data r = Inl RobotDeviceNotConnectedError \<and>
      capture_observation now r = Inl RobotDeviceNotConnectedError \<and>
      send_action r action = Inl RobotDeviceNotConnectedError \<and>
      disconnect force r = Inl RobotDeviceNotConnectedError) \<and>
   \<not> is_connected (init cfg followers leaders cams sensors) \<and>
   (disconnect force r = Inr r2 \<longrightarrow>
      teleop_step now record_data r2 = Inl RobotDeviceNotConnectedError \<and>
      capture_observation now r2 = Inl RobotDeviceNotConnectedError \<and>
      send_action r2 action = Inl RobotDeviceNotConnectedError \<and>
      disconnect force' r2 = Inl RobotDeviceNotConnectedError)"
proof (intro conjI impI)
  assume "is_connected r"
  then show "connect setup r = Inl RobotDeviceAlreadyConnectedError"
    by (rule connected_raises)
next
  assume "connect setup r = Inr r1"
  then have "is_connected r1" by (rule connect_connected)
  then show "connect setup' r1 = Inl RobotDeviceAlreadyConnectedError"
    by (rule connected_raises)
next
  assume n: "\<not> is_connected r"
  from not_connected_raises [OF n]
  show "teleop_step now record_data r = Inl RobotDeviceNotConnectedError"
    and "capture_observation now r = Inl RobotDeviceNotConnectedError"
    and "send_action r action = Inl RobotDeviceNotConnectedError"
    and "disconnect force r = Inl RobotDeviceNotConnectedError"
    by simp_all
next
  show "\<not> is_connected (init cfg followers leaders cams sensors)"
    by (simp add: init_def)
next
  assume "disconnect force r = Inr r2"
  then have n: "\<not> is_connected r2" by (rule disconnect_disconnected)
  from not_connected_raises [OF n]
  show "teleop_step now record_data r2 = Inl RobotDeviceNotConnectedError"
    and "capture_observation now r2 = Inl RobotDeviceNotConnectedError"
    and "send_action r2 action = Inl RobotDeviceNotConnectedError"
    and "disconnect force' r2 = Inl RobotDeviceNotConnectedError"
    by simp_all
qed

text \<open>
  The theorem on a controller with one follower arm: connect, connect again, disconnect,
  then disconnect and \<open>send_action\<close> on the disconnected controller.
\<close>

theorem lifecycle_errors_witness:
  "\<exists>r1 r2.
     connect Inr one_follower = Inr r1 \<and>
     connect Inr r1 = Inl RobotDeviceAlreadyConnectedError \<and>
     disconnect False r1 = Inr r2 \<and>
     disconnect False r2 = Inl RobotDeviceNotConnectedError \<and>
     send_action r2 [1] = Inl RobotDeviceNotConnectedError"
proof -
  obtain r1 where c: "connect Inr one_follower = Inr r1"
    by (simp add: one_follower_def connect_def init_def bind_err_def device_connect_def
          stub_arm_def)
  note L = lifecycle_errors [of one_follower Inr r1 Inr 0 False "[1]" False]
  from L c have a: "connect Inr r1 = Inl RobotDeviceAlreadyConnectedError"
    by simp
  from c have conn: "is_connected r1"
    by (rule connect_connected)
  obtain r2 where d: "disconnect False r1 = Inr r2"
    using conn by (simp add: disconnect_def)
  note M = lifecycle_errors [of r1 Inr r1 Inr 0 False "[1]" False _ _ _ _ _ r2 False]
  from M d have n: "disconnect False r2 = Inl RobotDeviceNotConnectedError \<and>
           send_action r2 [1] = Inl RobotDeviceNotConnectedError"
    by simp
  from c a d n show ?thesis by blast
qed


section \<open>Lifecycle: disconnect reaches every device\<close>

text \<open>
  C7. \<open>disconnect\<close> on a connected controller returns, leaves the controller
  disconnected, and has made exactly one more \<open>disconnect()\<close> call on every follower arm,
  leader arm, camera and tactile sensor of the registries, whichever of them raise.
\<close>

theorem disconnect_total:
  assumes "is_connected r"
  shows "\<exists>r'. disconnect force r = Inr r' \<and> \<not> is_connected r' \<and>
     map (\<lambda>(name, d). (name, disconnect_calls d)) (follower_arms r') =
       map (\<lambda>(name, d). (name, disconnect_calls d + 1)) (follower_arms r) \<and>
     map (\<lambda>(name, d). (name, disconnect_calls d)) (leader_arms r') =
       map (\<lambda>(name, d). (name, disconnect_calls d + 1)) (leader_arms r) \<and>
     map (\<lambda>(name, d). (name, disconnect_calls d)) (cameras r') =
       map (\<lambda>(name, d). (name, disconnect_calls d + 1)) (cameras r) \<and>
     map (\<lambda>(name, d). (name, disconnect_calls d)) (tactile_sensors r') =
       map (\<lambda>(name, d). (name, disconnect_calls d + 1)) (tactile_sensors r)"
proof -
  have t: "disconnect_calls (disconnect_tactile s) = disconnect_calls s + 1" for s
    by (simp add: disconnect_tactile_def device_disconnect_def)
  have d: "disconnect_calls (snd (device_disconnect x)) = disconnect_calls x + 1"
    for x :: "'a device_scheme"
    by (simp add: device_disconnect_def)
  from assms show ?thesis
    by (simp add: disconnect_def split_def t d)
qed

text \<open>
  The theorem on three devices of which the second, the camera, raises: each of the three
  has received its call and the controller is disconnected.
\<close>

theorem disconnect_total_witness:
  "disconnect_raises (snd (hd (cameras three_devices))) \<and>
   (\<exists>r'. disconnect False three_devices = Inr r' \<and> \<not> is_connected r' \<and>
      map (\<lambda>(name, d). (name, disconnect_calls d)) (follower_arms r') = [(''main'', 1)] \<and>
      map (\<lambda>(name, d). (name, disconnect_calls d)) (cameras r') = [(''wrist'', 1)] \<and>
      map (\<lambda>(name, d). (name, disconnect_calls d)) (tactile_sensors r') = [(''fingertip'', 1)])"
proof -
  have c: "is_connected three_devices"
    by (simp add: three_devices_def)
  have raises: "disconnect_raises (snd (hd (cameras three_devices)))"
    by (simp add: three_devices_def init_def stub_camera_def)
  have f: "map (\<lambda>(name, d). (name, disconnect_calls d + 1)) (follower_arms three_devices) =
             [(''main'', 1)]"
    by (simp add: three_devices_def init_def stub_arm_def)
  have k: "map (\<lambda>(name, d). (name, disconnect_calls d + 1)) (cameras three_devices) =
             [(''wrist'', 1)]"
    by (simp add: three_devices_def init_def stub_camera_def)
  have t: "map (\<lambda>(name, d). (name, disconnect_calls d + 1)) (tactile_sensors three_devices) =
             [(''fingertip'', 1)]"
    by (simp add: three_devices_def init_def stub_sensor_def)
  from disconnect_total [OF c, of False] obtain r' where
    "disconnect False three_devices = Inr r'" "\<not> is_connected r'"
    "map (\<lambda>(name, d). (name, disconnect_calls d)) (follower_arms r') =
       map (\<lambda>(name, d). (name, disconnect_calls d + 1)) (follower_arms three_devices)"
    "map (\<lambda>(name, d). (name, disconnect_calls d)) (cameras r') =
       map (\<lambda>(name, d). (name, disconnect_calls d + 1)) (cameras three_devices)"
    "map (\<lambda>(name, d). (name, disconnect_calls d)) (tactile_sensors r') =
       map (\<lambda>(name, d). (name, disconnect_calls d + 1)) (tactile_sensors three_devices)"
    by blast
  with raises f k t show ?thesis
    by auto
qed

section \<open>Feature schema of a digit sensor\<close>

text \<open>
  C8. When the tactile registry holds exactly one sensor, named fingertip and of type
  digit, \<open>tactile_features\<close> is exactly the five entries below: the four metadata keys and
  the image key of shape (240, 320, 3) and element type uint8, and no force or moment
  key. The schema is a function of the registry's configuration alone: nothing is
  assumed about the state of the sensor or of the controller, and no device is called.
\<close>

theorem digit_features:
  assumes "tactile_sensors r = [(''fingertip'', sensor)]"
    and "config_type (sensor_config sensor) = Some ''digit''"
  shows "tactile_features r =
     [(''observation.tactile.digit.fingertip.sensor_sn'',
         \<lparr>dtype = ''string'', shape = [1], names = None\<rparr>),
      (''observation.tactile.digit.fingertip.frame_index'',
         \<lparr>dtype = ''int64'', shape = [1], names = None\<rparr>),
      (''observation.tactile.digit.fingertip.send_timestamp'',
         \<lparr>dtype = ''float64'', shape = [1], names = None\<rparr>),
      (''observation.tactile.digit.fingertip.recv_timestamp'',
         \<lparr>dtype = ''float64'', shape = [1], names = None\<rparr>),
      (''observation.tactile.digit.fingertip.tactile_image'',
         \<lparr>dtype = ''uint8'', shape = [240, 320, 3],
          names = Some [''height'', ''width'', ''channel'']\<rparr>)]"
  using assms
  by (simp add: tactile_features_def sensor_features_def sensor_type_of_def tactile_key_def
        dict_update_all_def Let_def)

text \<open>The theorem on the controller whose only device is that sensor.\<close>

theorem digit_features_witness:
  "map fst (tactile_features tactile_only) =
     [''observation.tactile.digit.fingertip.sensor_sn'',
      ''observation.tactile.digit.fingertip.frame_index'',
      ''observation.tactile.digit.fingertip.send_timestamp'',
      ''observation.tactile.digit.fingertip.recv_timestamp'',
      ''observation.tactile.digit.fingertip.tactile_image'']"
proof -
  have h1: "tactile_sensors tactile_only = [(''fingertip'', stub_sensor ''digit'' ReadRaises)]"
    by (simp add: tactile_only_def init_def)
  have h2: "config_type (sensor_config (stub_sensor ''digit'' ReadRaises)) = Some ''digit''"
    by (simp add: stub_sensor_def)
  from digit_features [OF h1 h2] show ?thesis
    by simp
qed

section \<open>The device guard of connect\<close>

text \<open>
  In the model the no-device error comes from the guard alone: \<open>connect\<close> raises it
  exactly when the controller is not connected and has no leader arm, no follower arm
  and no camera.
\<close>

lemma connect_all_error: "connect_all ds = Inl e \<Longrightarrow> e = DeviceError ''connect''"
  by (induction ds) (auto simp: device_connect_def split: if_splits sum.splits)

lemma bind_err_Inl: "bind_err m f = Inl e \<longleftrightarrow> m = Inl e \<or> (\<exists>x. m = Inr x \<and> f x = Inl e)"
  by (cases m) (simp_all add: bind_err_def)

lemma connect_no_device_iff:
  "connect setup r = Inl (ValueError msg) \<longleftrightarrow>
     \<not> is_connected r \<and> leader_arms r = [] \<and> follower_arms r = [] \<and> cameras r = [] \<and>
     msg = ''ManipulatorRobot does not have any device to connect.''"
proof (cases "is_connected r \<or> (leader_arms r = [] \<and> follower_arms r = [] \<and> cameras r = [])")
  case True
  then show ?thesis by (auto simp: connect_def)
next
  case False
  have "connect setup r \<noteq> Inl (ValueError msg)"
  proof
    assume a: "connect setup r = Inl (ValueError msg)"
    from False a have "bind_err (connect_all (leader_arms r)) (\<lambda>leaders.
        bind_err (connect_all (follower_arms r)) (\<lambda>followers.
        bind_err (connect_all (cameras r)) (\<lambda>cams.
        bind_err (connect_all (tactile_sensors r)) (\<lambda>sensors.
          case setup (r\<lparr>leader_arms := leaders, follower_arms := followers,
                         cameras := cams, tactile_sensors := sensors\<rparr>) of
            Inl msg \<Rightarrow> Inl (DeviceError msg)
          | Inr r' \<Rightarrow> Inr (r'\<lparr>is_connected := True\<rparr>))))) = Inl (ValueError msg)"
      by (simp add: connect_def split: if_splits)
    then show False
      by (auto simp: bind_err_Inl dest: connect_all_error split: sum.splits) (meson sumE)
  qed
  with False show ?thesis by auto
qed

text \<open>
  C9. \<open>connect\<close> on a controller whose only configured device is a tactile sensor raises
  the error that no device is configured: the guard looks at the leader arms, the
  follower arms and the cameras, not at the tactile sensors.
\<close>

theorem connect_tactile_only:
  "tactile_sensors tactile_only \<noteq> [] \<and>
   connect setup tactile_only =
     Inl (ValueError ''ManipulatorRobot does not have any device to connect.'')"
  by (simp add: connect_def tactile_only_def init_def)

section \<open>Unfolding rules for concrete runs\<close>

lemmas tactile_defs =
  get_tactile_observation_def process_sensor_def raw_of_def sensor_type_of_def
  image_sensor_meta_def bind_err_def data_get_def get_not_none_def digit_image_def
  dict_update_all_def tactile_key_def copy_if_present_def List.map_filter_def
  getattr_default_def

lemmas capture_defs =
  capture_observation_def capture_devices_def read_state_def torch_cat_def read_cameras_def
  flag_critical_errors_def

lemmas stub_defs = init_def stub_sensor_def stub_arm_def stub_camera_def stub_config_def

lemmas clamp_defs = ensure_safe_goal_position_def broadcast_def cap_goal_def

section \<open>Dictionaries and the keys of an observation\<close>

lemma map_of_dict_update_all:
  "map_of (dict_update_all kvs d) = map_of d ++ map_of (rev kvs)"
proof (induction kvs arbitrary: d)
  case Nil
  show ?case by (simp add: dict_update_all_def)
next
  case (Cons kv kvs)
  obtain k v where kv: "kv = (k, v)" by (cases kv)
  have "dict_update_all (kv # kvs) d = dict_update_all kvs (AList.update k v d)"
    by (simp add: dict_update_all_def kv)
  then show ?case
    using Cons.IH [of "AList.update k v d"]
    by (simp add: kv update_conv' map_add_def fun_eq_iff map_of_append split: option.splits)
qed

lemma map_of_dict_update_all_other:
  "k \<notin> fst ` set kvs \<Longrightarrow> map_of (dict_update_all kvs d) k = map_of d k"
  by (simp add: map_of_dict_update_all map_add_def map_of_eq_None_iff [THEN iffD2]
        split: option.splits)

lemma keys_dict_update_all:
  "fst ` set (dict_update_all kvs d) = fst ` set d \<union> fst ` set kvs"
proof (induction kvs arbitrary: d)
  case Nil
  show ?case by (simp add: dict_update_all_def)
next
  case (Cons kv kvs)
  obtain k v where kv: "kv = (k, v)" by (cases kv)
  have "dict_update_all (kv # kvs) d = dict_update_all kvs (AList.update k v d)"
    by (simp add: dict_update_all_def kv)
  then show ?case
    using Cons.IH [of "AList.update k v d"] by (auto simp: kv dom_update)
qed

lemma tactile_key_in: "tactile_key t n f \<in> tactile_keys"
  by (simp add: tactile_key_def tactile_keys_def)

lemma copy_fields_keys:
  "copy_fields td t n fs = Inr kvs \<Longrightarrow> fst ` set kvs \<subseteq> tactile_keys"
proof (induction fs arbitrary: kvs)
  case Nil
  then show ?case by simp
next
  case (Cons f fs)
  from Cons.prems obtain v kvs' where
    "copy_fields td t n fs = Inr kvs'" and "kvs = (tactile_key t n f, v) # kvs'"
    by (auto split: option.splits sum.splits)
  with Cons.IH [of kvs'] show ?case
    by (simp add: tactile_key_in)
qed

lemma copy_if_present_keys: "fst ` set (copy_if_present td t n fs) \<subseteq> tactile_keys"
  by (auto simp: copy_if_present_def List.map_filter_def tactile_key_in)

lemma stage3_keys:
  "stage3 td sensors obs = Inr obs' \<Longrightarrow> fst ` set obs' \<subseteq> fst ` set obs \<union> tactile_keys"
proof (induction sensors arbitrary: obs)
  case Nil
  then show ?case by auto
next
  case (Cons ns sensors)
  obtain n s where ns: "ns = (n, s)" by (cases ns)
  let ?fs = "[''sensor_sn'', ''frame_index'', ''send_timestamp'', ''recv_timestamp''] @
              (if sensor_type_of s = ''tac3d'' then
                 [''positions_3d'', ''displacements_3d'', ''forces_3d'',
                  ''resultant_force'', ''resultant_moment'']
               else if sensor_type_of s = ''gelsight'' then [''tactile_image'']
               else [])"
  let ?extra = "(if sensor_type_of s = ''tac3d'' \<or> sensor_type_of s = ''gelsight'' then []
                 else if sensor_type_of s = ''digit'' then
                   copy_if_present td (sensor_type_of s) n [''tactile_image'']
                 else
                   copy_if_present td (sensor_type_of s) n
                     [''resultant_force'', ''resultant_moment''])"
  from Cons.prems obtain kvs where
    c: "copy_fields td (sensor_type_of s) n ?fs = Inr kvs"
    and r: "stage3 td sensors (dict_update_all (kvs @ ?extra) obs) = Inr obs'"
    unfolding ns by (simp add: Let_def split: sum.splits)
  have k1: "fst ` set kvs \<subseteq> tactile_keys"
    using c by (rule copy_fields_keys)
  have k2: "fst ` set ?extra \<subseteq> tactile_keys"
    using copy_if_present_keys by (simp split: if_splits)
  from Cons.IH [OF r] have "fst ` set obs' \<subseteq> fst ` set (dict_update_all (kvs @ ?extra) obs) \<union> tactile_keys" .
  also have "fst ` set (dict_update_all (kvs @ ?extra) obs) = fst ` set obs \<union> fst ` set (kvs @ ?extra)"
    by (rule keys_dict_update_all)
  finally have "fst ` set obs' \<subseteq> fst ` set obs \<union> fst ` set (kvs @ ?extra) \<union> tactile_keys" .
  moreover have "fst ` set (kvs @ ?extra) \<subseteq> tactile_keys"
    using k1 k2 by (simp only: set_append image_Un Un_subset_iff)
  ultimately show ?case by blast
qed

lemma tactile_obs_keys:
  "get_tactile_observation now r = Inr (tobs, r') \<Longrightarrow> fst ` set tobs \<subseteq> tactile_keys"
  by (auto simp: get_tactile_observation_def Let_def split: sum.splits dest!: stage3_keys)

lemma state_not_tactile: "''observation.state'' \<notin> tactile_keys"
  by (simp add: tactile_keys_def)

lemma capture_devices_state:
  assumes "capture_devices now state r = Inr (obs, r')"
  shows "map_of obs ''observation.state'' = Some (OVec state)"
proof -
  obtain images cams where rc: "read_cameras (cameras r) = (images, cams)"
    by (cases "read_cameras (cameras r)")
  let ?imgs = "map (\<lambda>(name, img). (''observation.images.'' @ name, img)) images"
  from assms rc obtain tobs r'' where
    t: "get_tactile_observation now (r\<lparr>cameras := cams\<rparr>) = Inr (tobs, r'')"
    and o: "obs = dict_update_all tobs (dict_update_all ?imgs [(''observation.state'', OVec state)])"
    by (auto simp: capture_devices_def split: sum.splits)
  have k1: "''observation.state'' \<notin> fst ` set tobs"
    using tactile_obs_keys [OF t] state_not_tactile by blast
  have k2: "''observation.state'' \<notin> fst ` set ?imgs"
    by auto
  have "map_of obs ''observation.state'' =
          map_of (dict_update_all ?imgs [(''observation.state'', OVec state)]) ''observation.state''"
    unfolding o by (rule map_of_dict_update_all_other [OF k1])
  also have "\<dots> = map_of [(''observation.state'', OVec state)] ''observation.state''"
    by (rule map_of_dict_update_all_other [OF k2])
  also have "\<dots> = Some (OVec state)"
    by simp
  finally show ?thesis .
qed

lemma read_state_length:
  assumes "read_state followers = Inr state"
    and "\<forall>(name, follower) \<in> set followers.
           length (present_position follower) = length (motor_names follower)"
  shows "length state = length (get_motor_names followers)"
proof -
  from assms(1) have s: "state = concat (map (\<lambda>(name, follower). present_position follower) followers)"
    by (simp add: read_state_def torch_cat_def split: if_splits)
  from assms(2) have "length (concat (map (\<lambda>(name, follower). present_position follower) followers)) =
      length (concat (map (\<lambda>(name, follower). motor_names follower) followers))"
    by (induction followers) auto
  with s show ?thesis by (simp add: get_motor_names_def)
qed

section \<open>The declared and the captured state\<close>

text \<open>
  C10. The descriptors of \<open>action\<close> and \<open>observation.state\<close> in the feature schema are
  the same: 32-bit floats of shape \<open>(n,)\<close>, named by the motor names of the leader arms in
  registry order, \<open>n\<close> being their number; the follower arms do not enter. The captured
  \<open>observation.state\<close> is the concatenation of the followers' present positions. So when
  every follower reports one position per motor and the leaders and the followers have
  different numbers of motors, the declared shape of \<open>observation.state\<close> differs from
  the length of the captured vector.
\<close>

theorem state_schema_from_leaders:
  "motor_features r =
     [(''action'',
       \<lparr>dtype = ''float32'', shape = [length (get_motor_names (leader_arms r))],
        names = Some (get_motor_names (leader_arms r))\<rparr>),
      (''observation.state'',
       \<lparr>dtype = ''float32'', shape = [length (get_motor_names (leader_arms r))],
        names = Some (get_motor_names (leader_arms r))\<rparr>)] \<and>
   (capture_observation now r = Inr (obs, r') \<and>
    (\<forall>(name, follower) \<in> set (follower_arms r).
        length (present_position follower) = length (motor_names follower)) \<and>
    length (get_motor_names (leader_arms r)) \<noteq> length (get_motor_names (follower_arms r)) \<longrightarrow>
    (\<exists>state. map_of obs ''observation.state'' = Some (OVec state) \<and>
       length state = length (get_motor_names (follower_arms r)) \<and>
       map_option shape (map_of (motor_features r) ''observation.state'') \<noteq> Some [length state]))"
proof (intro conjI impI)
  show "motor_features r =
     [(''action'',
       \<lparr>dtype = ''float32'', shape = [length (get_motor_names (leader_arms r))],
        names = Some (get_motor_names (leader_arms r))\<rparr>),
      (''observation.state'',
       \<lparr>dtype = ''float32'', shape = [length (get_motor_names (leader_arms r))],
        names = Some (get_motor_names (leader_arms r))\<rparr>)]"
    by (simp add: motor_features_def Let_def)
next
  assume a: "capture_observation now r = Inr (obs, r') \<and>
    (\<forall>(name, follower) \<in> set (follower_arms r).
        length (present_position follower) = length (motor_names follower)) \<and>
    length (get_motor_names (leader_arms r)) \<noteq> length (get_motor_names (follower_arms r))"
  then obtain state where
    rs: "read_state (follower_arms r) = Inr state"
    and cd: "capture_devices now state r = Inr (obs, r')"
    by (auto simp: capture_observation_def split: if_splits sum.splits)
  have l: "length state = length (get_motor_names (follower_arms r))"
    using rs a by (intro read_state_length) auto
  have m: "map_of obs ''observation.state'' = Some (OVec state)"
    using cd by (rule capture_devices_state)
  have "map_option shape (map_of (motor_features r) ''observation.state'') =
          Some [length (get_motor_names (leader_arms r))]"
    by (simp add: motor_features_def Let_def)
  with a l m show "\<exists>state. map_of obs ''observation.state'' = Some (OVec state) \<and>
       length state = length (get_motor_names (follower_arms r)) \<and>
       map_option shape (map_of (motor_features r) ''observation.state'') \<noteq> Some [length state]"
    by auto
qed

text \<open>
  The theorem on a controller whose leader has one motor and whose follower has two: the
  declared shape is \<open>(1,)\<close> and the captured state has two entries.
\<close>

theorem state_schema_from_leaders_witness:
  "\<exists>obs r'. capture_observation 0 mismatched = Inr (obs, r') \<and>
     map_of obs ''observation.state'' = Some (OVec [10, 20]) \<and>
     map_option shape (map_of (motor_features mismatched) ''observation.state'') = Some [1]"
proof -
  obtain obs r' where c: "capture_observation 0 mismatched = Inr (obs, r')"
    and o: "obs = [(''observation.state'', OVec [10, 20])]"
    by (simp add: capture_defs mismatched_def stub_defs tactile_defs)
  have h2: "\<forall>(name, follower) \<in> set (follower_arms mismatched).
              length (present_position follower) = length (motor_names follower)"
    by (simp add: mismatched_def stub_defs)
  have h3: "length (get_motor_names (leader_arms mismatched)) \<noteq>
            length (get_motor_names (follower_arms mismatched))"
    by (simp add: mismatched_def stub_defs get_motor_names_def)
  from state_schema_from_leaders [of mismatched 0 obs r'] c h2 h3
  obtain state where
    "map_of obs ''observation.state'' = Some (OVec state)"
    "map_option shape (map_of (motor_features mismatched) ''observation.state'') \<noteq> Some [length state]"
    "motor_features mismatched =
     [(''action'',
       \<lparr>dtype = ''float32'', shape = [length (get_motor_names (leader_arms mismatched))],
        names = Some (get_motor_names (leader_arms mismatched))\<rparr>),
      (''observation.state'',
       \<lparr>dtype = ''float32'', shape = [length (get_motor_names (leader_arms mismatched))],
        names = Some (get_motor_names (leader_arms mismatched))\<rparr>)]"
    by blast
  moreover have "length (get_motor_names (leader_arms mismatched)) = 1"
    by (simp add: mismatched_def stub_defs get_motor_names_def)
  ultimately show ?thesis using c o
    by simp
qed

section \<open>The follower loops of teleop_step and send_action\<close>

lemma cap_goal_sent_to: "cap_goal mrt g f = Inr seg \<longleftrightarrow> sent_to mrt (g, n, f) seg"
  by (auto simp: cap_goal_def sent_to_def split: option.splits)


lemma teleop_followers_iff:
  "teleop_followers mrt lp fs = Inr (goals, fs') \<longleftrightarrow>
     list_all2 (teleop_goal mrt lp) fs goals \<and> fs' = written fs (map snd goals)"
proof (induction fs arbitrary: goals fs')
  case Nil
  show ?case by (auto simp: written_def)
next
  case (Cons nf fs)
  obtain n f where nf: "nf = (n, f)" by (cases nf)
  have lhs: "teleop_followers mrt lp (nf # fs) = Inr (goals, fs') \<longleftrightarrow>
      (\<exists>pose g gs t. map_of lp n = Some pose \<and> cap_goal mrt pose f = Inr g \<and>
         teleop_followers mrt lp fs = Inr (gs, t) \<and>
         goals = (n, g) # gs \<and> fs' = (n, arm_write ''Goal_Position'' g f) # t)"
    by (auto simp: nf astype_float32_def split: sum.splits option.splits)
  have rhs: "list_all2 (teleop_goal mrt lp) (nf # fs) goals \<and> fs' = written (nf # fs) (map snd goals) \<longleftrightarrow>
      (\<exists>pose g gs. map_of lp n = Some pose \<and> sent_to mrt (pose, n, f) g \<and>
         list_all2 (teleop_goal mrt lp) fs gs \<and>
         goals = (n, g) # gs \<and> fs' = (n, arm_write ''Goal_Position'' g f) # written fs (map snd gs))"
    by (auto simp: nf written_def list_all2_Cons1 teleop_goal_def)
  show ?case
    unfolding lhs rhs by (simp only: Cons.IH cap_goal_sent_to [where n = n]) blast
qed

lemma written_writes:
  "length gs = length fs \<Longrightarrow>
   written fs gs =
     map2 (\<lambda>(name, follower) goal.
            (name, follower\<lparr>writes := writes follower @ [(''Goal_Position'', goal)]\<rparr>)) fs gs"
  by (simp add: written_def arm_write_def)

lemma teleop_followers_total:
  assumes "\<forall>(name, follower) \<in> set fs.
             \<exists>pose goal. map_of lp name = Some pose \<and> sent_to mrt (pose, name, follower) goal"
  shows "\<exists>goals. list_all2 (teleop_goal mrt lp) fs goals"
  using assms
proof (induction fs)
  case Nil
  show ?case by simp
next
  case (Cons nf fs)
  obtain n f where nf: "nf = (n, f)" by (cases nf)
  from Cons.prems obtain pose g where
    "map_of lp n = Some pose" "sent_to mrt (pose, n, f) g"
    by (auto simp: nf)
  moreover from Cons obtain gs where "list_all2 (teleop_goal mrt lp) fs gs"
    by auto
  ultimately have "list_all2 (teleop_goal mrt lp) (nf # fs) ((n, g) # gs)"
    by (auto simp: nf teleop_goal_def)
  then show ?case by blast
qed







section \<open>Teleoperation without recording\<close>

text \<open>
  C5. When \<open>teleop_step(record_data=False)\<close> returns, it returns \<open>None\<close>; the cameras and
  the tactile sensors are as they were, so no read has been made on any of them; and the
  write log of every follower arm has grown by exactly one entry, a write of
  \<open>Goal_Position\<close>. It does return on every connected controller in which each follower
  has a leader of the same name whose pose can be sent to it (always without a bound,
  and when the clamp accepts the shapes with one).
\<close>

theorem teleop_step_no_record:
  "(teleop_step now False r = Inr (res, r') \<longrightarrow>
      res = None \<and> cameras r' = cameras r \<and> tactile_sensors r' = tactile_sensors r \<and>
      leader_arms r' = leader_arms r \<and>
      (\<exists>goals. length goals = length (follower_arms r) \<and>
         follower_arms r' =
           map2 (\<lambda>(name, follower) goal.
                  (name, follower\<lparr>writes := writes follower @ [(''Goal_Position'', goal)]\<rparr>))
             (follower_arms r) goals)) \<and>
   (is_connected r \<and>
    (\<forall>(name, follower) \<in> set (follower_arms r).
        \<exists>pose goal. map_of (leader_poses r) name = Some pose \<and>
          sent_to (max_relative_target (config r)) (pose, name, follower) goal) \<longrightarrow>
    (\<exists>r'. teleop_step now False r = Inr (None, r')))"
proof (intro conjI impI)
  assume a: "teleop_step now False r = Inr (res, r')"
  then obtain goals fs' where
    t: "teleop_followers (max_relative_target (config r)) (leader_poses r) (follower_arms r) =
          Inr (goals, fs')"
    and res: "res = None" and r': "r' = r\<lparr>follower_arms := fs'\<rparr>"
    by (auto simp: teleop_step_def leader_poses_def Let_def split: if_splits sum.splits)
  from t have l: "list_all2 (teleop_goal (max_relative_target (config r)) (leader_poses r))
                    (follower_arms r) goals"
    and w: "fs' = written (follower_arms r) (map snd goals)"
    by (simp_all add: teleop_followers_iff)
  from l have len: "length (map snd goals) = length (follower_arms r)"
    by (simp add: list_all2_lengthD)
  from w written_writes [OF len] len
  have "\<exists>goals. length goals = length (follower_arms r) \<and>
         fs' = map2 (\<lambda>(name, follower) goal.
                  (name, follower\<lparr>writes := writes follower @ [(''Goal_Position'', goal)]\<rparr>))
             (follower_arms r) goals"
    by (intro exI [of _ "map snd goals"]) simp
  with res r' show "res = None" and "cameras r' = cameras r"
    and "tactile_sensors r' = tactile_sensors r" and "leader_arms r' = leader_arms r"
    and "\<exists>goals. length goals = length (follower_arms r) \<and>
         follower_arms r' =
           map2 (\<lambda>(name, follower) goal.
                  (name, follower\<lparr>writes := writes follower @ [(''Goal_Position'', goal)]\<rparr>))
             (follower_arms r) goals"
    by simp_all
next
  assume a: "is_connected r \<and>
    (\<forall>(name, follower) \<in> set (follower_arms r).
        \<exists>pose goal. map_of (leader_poses r) name = Some pose \<and>
          sent_to (max_relative_target (config r)) (pose, name, follower) goal)"
  then obtain goals where
    "list_all2 (teleop_goal (max_relative_target (config r)) (leader_poses r)) (follower_arms r) goals"
    using teleop_followers_total by blast
  then have "teleop_followers (max_relative_target (config r)) (leader_poses r) (follower_arms r) =
          Inr (goals, written (follower_arms r) (map snd goals))"
    by (simp add: teleop_followers_iff)
  with a show "\<exists>r'. teleop_step now False r = Inr (None, r')"
    by (simp add: teleop_step_def leader_poses_def)
qed

text \<open>
  The theorem on a teleoperation pair with a bound of 5: one write per follower, and the
  read counters of the camera and of the tactile sensor are still zero.
\<close>

theorem teleop_step_no_record_witness:
  "\<exists>r'. teleop_step 0 False (teleop_pair (Some (Scalar 5))) = Inr (None, r') \<and>
     map (\<lambda>(name, follower). (name, writes follower)) (follower_arms r') =
       [(''main'', [(''Goal_Position'', [5, - 5])])] \<and>
     map (\<lambda>(name, cam). (name, async_read_calls cam)) (cameras r') = [(''wrist'', 0)] \<and>
     map (\<lambda>(name, sensor). (name, read_calls sensor)) (tactile_sensors r') = [(''fingertip'', 0)]"
proof -
  define r where "r = teleop_pair (Some (Scalar 5))"
  have e: "\<exists>r'. teleop_step 0 False r = Inr (None, r') \<and>
    map (\<lambda>(name, follower). (name, writes follower)) (follower_arms r') =
       [(''main'', [(''Goal_Position'', [5, - 5])])]"
    unfolding r_def
    by (simp add: teleop_step_def teleop_pair_def stub_defs clamp_defs arm_write_def
          astype_float32_def)
  then obtain r' where t: "teleop_step 0 False r = Inr (None, r')"
    and w: "map (\<lambda>(name, follower). (name, writes follower)) (follower_arms r') =
       [(''main'', [(''Goal_Position'', [5, - 5])])]"
    by (elim exE conjE)
  note N = teleop_step_no_record [of 0 r None r', THEN conjunct1, THEN mp, OF t]
  from N have c: "cameras r' = cameras r"
    by (elim conjE)
  from N have s: "tactile_sensors r' = tactile_sensors r"
    by (elim conjE)
  have c0: "map (\<lambda>(name, cam). (name, async_read_calls cam)) (cameras r) = [(''wrist'', 0)]"
    unfolding r_def by (simp add: teleop_pair_def stub_defs)
  have s0: "map (\<lambda>(name, sensor). (name, read_calls sensor)) (tactile_sensors r) = [(''fingertip'', 0)]"
    unfolding r_def by (simp add: teleop_pair_def stub_defs)
  have c1: "map (\<lambda>(name, cam). (name, async_read_calls cam)) (cameras r') = [(''wrist'', 0)]"
    using c0 by (simp only: c)
  have s1: "map (\<lambda>(name, sensor). (name, read_calls sensor)) (tactile_sensors r') = [(''fingertip'', 0)]"
    using s0 by (simp only: s)
  from t w c1 s1 show ?thesis
    unfolding r_def by (intro exI [of _ r'] conjI)
qed

section \<open>Teleoperation with recording\<close>



section \<open>Action dispatch\<close>



section \<open>Tactile capture under read failure\<close>

text \<open>
  When the read of the only tactile sensor raises, or returns nothing, the tactile
  observation holds exactly the keys of the schema, each with the placeholder of its
  declared shape and element type, whatever the type of the sensor.
\<close>

lemma read_failure_placeholders:
  assumes reg: "tactile_sensors r = [(name, sensor)]"
    and raw: "raw_of sensor = None \<or> raw_of sensor = Some []"
  shows "get_tactile_observation now r =
           Inr (map (\<lambda>(k, f). (k, placeholder f)) (tactile_features r),
                r\<lparr>tactile_sensors := [(name, sensor\<lparr>read_calls := read_calls sensor + 1\<rparr>)]\<rparr>)"
proof -
  consider (tac3d) "sensor_type_of sensor = ''tac3d''"
    | (gelsight) "sensor_type_of sensor = ''gelsight''"
    | (digit) "sensor_type_of sensor = ''digit''"
    | (other) "sensor_type_of sensor \<noteq> ''tac3d''" "sensor_type_of sensor \<noteq> ''gelsight''"
        "sensor_type_of sensor \<noteq> ''digit''"
    by blast
  then show ?thesis
  proof cases
    case tac3d
    with reg raw show ?thesis
      by (auto simp: get_tactile_observation_def process_sensor_def tactile_features_def
            sensor_features_def dict_update_all_def tactile_key_def placeholder_def Let_def)
  next
    case gelsight
    with reg raw show ?thesis
      by (auto simp: get_tactile_observation_def process_sensor_def tactile_features_def
            sensor_features_def dict_update_all_def tactile_key_def placeholder_def Let_def)
  next
    case digit
    with reg raw show ?thesis
      by (auto simp: get_tactile_observation_def process_sensor_def tactile_features_def
            sensor_features_def dict_update_all_def tactile_key_def placeholder_def Let_def
            copy_if_present_def List.map_filter_def)
  next
    case other
    with reg raw show ?thesis
      by (auto simp: get_tactile_observation_def process_sensor_def tactile_features_def
            sensor_features_def dict_update_all_def tactile_key_def placeholder_def Let_def
            copy_if_present_def List.map_filter_def)
  qed
qed

text \<open>
  A digit payload without an image gets a zero image.
\<close>

lemma digit_missing_image:
  "\<exists>obs r'. capture_observation now (image_missing ''digit'') = Inr (obs, r') \<and>
     map_of obs ''observation.tactile.digit.gs.tactile_image'' =
       Some (OTensor (Zeros ''uint8'' [240, 320, 3]))"
  by (simp add: capture_defs image_missing_def stub_defs tactile_defs)

text \<open>
  C2. A gelsight sensor whose \<open>read()\<close> returns a payload without an image: the schema
  declares the key \<open>tactile_image\<close> for the sensor, stage 2 stores no image for it, and
  the unguarded lookup of stage 3 raises \<open>KeyError\<close> out of \<open>capture_observation\<close>.
\<close>

theorem gelsight_missing_image_raises:
  "''observation.tactile.gelsight.gs.tactile_image'' \<in> fst ` set (tactile_features (image_missing ''gelsight'')) \<and>
   capture_observation now (image_missing ''gelsight'') = Inl (KeyError ''gs_tactile_image'')"
  by (simp add: capture_defs image_missing_def stub_defs tactile_defs tactile_features_def
        sensor_features_def Let_def)

end
